theory Spec2Isabelle
  imports Complex_Main
begin

section \<open>JavaScript numbers and arrays\<close>

text \<open>
  The engines compute on JavaScript \<^verbatim>\<open>number\<close>s. The model keeps the four kinds of value
  a computation can produce: a finite number, the two infinities and not-a-number.
  Finite arithmetic is exact (a real number: no rounding and no overflow), and zero has
  no sign; a division of a non-zero finite number by zero gives the infinity of the sign
  of the numerator, as it does for the non-negative zero denominators of this program.
  \<open>NaN\<close> propagates through every operation and every comparison with it is false.
\<close>

datatype jsnum = Fin real | PInf | NInf | NaN

fun js_add :: "jsnum \<Rightarrow> jsnum \<Rightarrow> jsnum" where
  "js_add (Fin a) (Fin b) = Fin (a + b)"
| "js_add NaN _ = NaN"
| "js_add _ NaN = NaN"
| "js_add PInf NInf = NaN"
| "js_add NInf PInf = NaN"
| "js_add PInf _ = PInf"
| "js_add _ PInf = PInf"
| "js_add NInf _ = NInf"
| "js_add _ NInf = NInf"

fun js_neg :: "jsnum \<Rightarrow> jsnum" where
  "js_neg (Fin a) = Fin (- a)"
| "js_neg PInf = NInf"
| "js_neg NInf = PInf"
| "js_neg NaN = NaN"

definition js_sub :: "jsnum \<Rightarrow> jsnum \<Rightarrow> jsnum" where
  "js_sub a b = js_add a (js_neg b)"

fun js_mul :: "jsnum \<Rightarrow> jsnum \<Rightarrow> jsnum" where
  "js_mul (Fin a) (Fin b) = Fin (a * b)"
| "js_mul NaN _ = NaN"
| "js_mul _ NaN = NaN"
| "js_mul (Fin a) PInf = (if a = 0 then NaN else if 0 < a then PInf else NInf)"
| "js_mul (Fin a) NInf = (if a = 0 then NaN else if 0 < a then NInf else PInf)"
| "js_mul PInf (Fin b) = (if b = 0 then NaN else if 0 < b then PInf else NInf)"
| "js_mul NInf (Fin b) = (if b = 0 then NaN else if 0 < b then NInf else PInf)"
| "js_mul PInf PInf = PInf"
| "js_mul PInf NInf = NInf"
| "js_mul NInf PInf = NInf"
| "js_mul NInf NInf = PInf"

fun js_div :: "jsnum \<Rightarrow> jsnum \<Rightarrow> jsnum" where
  "js_div (Fin a) (Fin b) =
     (if b = 0 then (if a = 0 then NaN else if 0 < a then PInf else NInf) else Fin (a / b))"
| "js_div NaN _ = NaN"
| "js_div _ NaN = NaN"
| "js_div (Fin a) PInf = Fin 0"
| "js_div (Fin a) NInf = Fin 0"
| "js_div PInf (Fin b) = (if 0 \<le> b then PInf else NInf)"
| "js_div NInf (Fin b) = (if 0 \<le> b then NInf else PInf)"
| "js_div PInf PInf = NaN"
| "js_div PInf NInf = NaN"
| "js_div NInf PInf = NaN"
| "js_div NInf NInf = NaN"

text \<open>The comparison \<^verbatim>\<open>a < b\<close>; \<^verbatim>\<open>a > b\<close> is \<open>js_lt b a\<close>.\<close>

fun js_lt :: "jsnum \<Rightarrow> jsnum \<Rightarrow> bool" where
  "js_lt (Fin a) (Fin b) = (a < b)"
| "js_lt NaN _ = False"
| "js_lt _ NaN = False"
| "js_lt (Fin a) PInf = True"
| "js_lt (Fin a) NInf = False"
| "js_lt PInf _ = False"
| "js_lt NInf (Fin b) = True"
| "js_lt NInf PInf = True"
| "js_lt NInf NInf = False"

text \<open>The comparison \<^verbatim>\<open>a <= b\<close>.\<close>

fun js_le :: "jsnum \<Rightarrow> jsnum \<Rightarrow> bool" where
  "js_le (Fin a) (Fin b) = (a \<le> b)"
| "js_le NaN _ = False"
| "js_le _ NaN = False"
| "js_le (Fin a) PInf = True"
| "js_le (Fin a) NInf = False"
| "js_le PInf (Fin b) = False"
| "js_le PInf PInf = True"
| "js_le PInf NInf = False"
| "js_le NInf _ = True"

definition js_gt :: "jsnum \<Rightarrow> jsnum \<Rightarrow> bool" where
  "js_gt a b = js_lt b a"

text \<open>\<^verbatim>\<open>Math.min\<close> and \<^verbatim>\<open>Math.max\<close> of two arguments, \<^verbatim>\<open>Math.abs\<close>.\<close>

definition js_min :: "jsnum \<Rightarrow> jsnum \<Rightarrow> jsnum" where
  "js_min a b = (if a = NaN \<or> b = NaN then NaN else if js_lt b a then b else a)"

definition js_max :: "jsnum \<Rightarrow> jsnum \<Rightarrow> jsnum" where
  "js_max a b = (if a = NaN \<or> b = NaN then NaN else if js_lt a b then b else a)"

fun js_abs :: "jsnum \<Rightarrow> jsnum" where
  "js_abs (Fin a) = Fin \<bar>a\<bar>"
| "js_abs PInf = PInf"
| "js_abs NInf = PInf"
| "js_abs NaN = NaN"

text \<open>\<^verbatim>\<open>a || d\<close> on numbers: zero and not-a-number are falsy.\<close>

definition js_or :: "jsnum \<Rightarrow> jsnum \<Rightarrow> jsnum" where
  "js_or a d = (if a = Fin 0 \<or> a = NaN then d else a)"

text \<open>
  A read \<^verbatim>\<open>xs[i]\<close> of an array of numbers. Out of range JavaScript gives
  \<^verbatim>\<open>undefined\<close>, which every arithmetic operation and comparison of this program
  turns into not-a-number; the model reads \<open>NaN\<close> there.
\<close>

definition js_nth :: "jsnum list \<Rightarrow> nat \<Rightarrow> jsnum" where
  "js_nth xs i = (if i < length xs then xs ! i else NaN)"

definition js_at :: "jsnum list \<Rightarrow> int \<Rightarrow> jsnum" where
  "js_at xs k = (if 0 \<le> k \<and> k < int (length xs) then xs ! nat k else NaN)"

text \<open>
  \<^verbatim>\<open>xs.slice(start, end)\<close> and \<^verbatim>\<open>xs.slice(start)\<close>: a negative bound counts from
  the end and every bound is clamped to the array.
\<close>

definition slice_bound :: "nat \<Rightarrow> int \<Rightarrow> nat" where
  "slice_bound len k = (if k < 0 then nat (max (int len + k) 0) else min (nat k) len)"

definition js_slice :: "'a list \<Rightarrow> int \<Rightarrow> int \<Rightarrow> 'a list" where
  "js_slice xs start fin =
     (let k = slice_bound (length xs) start; e = slice_bound (length xs) fin
      in take (e - k) (drop k xs))"

definition js_slice_from :: "'a list \<Rightarrow> int \<Rightarrow> 'a list" where
  "js_slice_from xs start = drop (slice_bound (length xs) start) xs"

text \<open>\<^verbatim>\<open>xs.reduce((sum, v) => sum + v, 0)\<close>.\<close>

definition js_sum :: "jsnum list \<Rightarrow> jsnum" where
  "js_sum xs = foldl js_add (Fin 0) xs"

section \<open>Indicator engine (technical-indicators)\<close>

subsection \<open>Simple moving average\<close>

text \<open>
  \<^verbatim>\<open>calculateSMA(data, period)\<close> of the indicator engine: one output per input index;
  \<^verbatim>\<open>NaN\<close> while \<^verbatim>\<open>i < period - 1\<close>, then the sum of \<^verbatim>\<open>data[i - j]\<close> for
  \<^verbatim>\<open>j = 0, 1, ...\<close> while \<^verbatim>\<open>j < period\<close>, accumulated from 0 in that order and
  divided by the period.

  The arithmetic of the language enters this function through parameters, and nothing
  is assumed of them: \<open>add\<close> is \<^verbatim>\<open>+\<close>, \<open>divby s p\<close> is \<^verbatim>\<open>s / p\<close> for the number
  of value \<open>p\<close>, \<open>zero\<close> is \<^verbatim>\<open>0\<close> and \<open>nan\<close> is \<^verbatim>\<open>NaN\<close>. What is proved of
  \<open>calculateSMA\<close> therefore holds for the rounding and overflowing arithmetic of
  doubles as it does for exact arithmetic. The period is a real number (it may be
  fractional or negative); the counters \<open>i\<close> and \<open>j\<close> are integers, and the
  comparisons \<^verbatim>\<open>i < period - 1\<close> and \<^verbatim>\<open>j < period\<close> are taken on the values, so the
  inner loop runs for \<open>j\<close> below the ceiling of the period. A read out of range gives
  \<^verbatim>\<open>undefined\<close>, which the addition takes as \<^verbatim>\<open>NaN\<close>.
\<close>

definition sma_window_sum ::
  "('n \<Rightarrow> 'n \<Rightarrow> 'n) \<Rightarrow> 'n \<Rightarrow> 'n \<Rightarrow> 'n list \<Rightarrow> real \<Rightarrow> nat \<Rightarrow> 'n" where
  "sma_window_sum add zero nan data period i =
     foldl (\<lambda>sum j. if j \<le> i \<and> i - j < length data then add sum (data ! (i - j))
                     else add sum nan)
       zero [0..<nat \<lceil>period\<rceil>]"

definition calculateSMA ::
  "('n \<Rightarrow> 'n \<Rightarrow> 'n) \<Rightarrow> ('n \<Rightarrow> real \<Rightarrow> 'n) \<Rightarrow> 'n \<Rightarrow> 'n \<Rightarrow> 'n list \<Rightarrow> real \<Rightarrow> 'n list" where
  "calculateSMA add divby zero nan data period =
     map (\<lambda>i. if real i < period - 1 then nan
              else divby (sma_window_sum add zero nan data period i) period)
         [0..<length data]"

text \<open>
  The same function on the number model of this theory, whose finite arithmetic is exact,
  and the arithmetic mean of a window in that model.
\<close>

definition calculateSMA_exact :: "jsnum list \<Rightarrow> real \<Rightarrow> jsnum list" where
  "calculateSMA_exact data period =
     calculateSMA js_add (\<lambda>s p. js_div s (Fin p)) (Fin 0) NaN data period"

definition js_mean :: "jsnum list \<Rightarrow> jsnum" where
  "js_mean xs = js_div (js_sum xs) (Fin (real (length xs)))"

subsection \<open>Relative strength index\<close>

text \<open>
  \<^verbatim>\<open>calculateRSI(data, period = 14)\<close>: the gains and losses of the day-over-day
  changes, \<open>period\<close> leading \<^verbatim>\<open>NaN\<close>s, a first value from the simple means of the
  first \<open>period\<close> gains and losses, then Wilder smoothing. The average loss is replaced
  by \<^verbatim>\<open>0.001\<close> where it is falsy (\<^verbatim>\<open>avgLoss || 0.001\<close>).
\<close>

definition rsi_gains :: "jsnum list \<Rightarrow> jsnum list" where
  "rsi_gains data =
     map (\<lambda>i. let change = js_sub (js_nth data i) (js_nth data (i - 1))
              in if js_gt change (Fin 0) then change else Fin 0)
         [1..<length data]"

definition rsi_losses :: "jsnum list \<Rightarrow> jsnum list" where
  "rsi_losses data =
     map (\<lambda>i. let change = js_sub (js_nth data i) (js_nth data (i - 1))
              in if js_lt change (Fin 0) then js_abs change else Fin 0)
         [1..<length data]"

definition rsi_value :: "jsnum \<Rightarrow> jsnum \<Rightarrow> jsnum" where
  "rsi_value avgGain avgLoss =
     js_sub (Fin 100)
       (js_div (Fin 100) (js_add (Fin 1) (js_div avgGain (js_or avgLoss (Fin (1 / 1000))))))"

definition rsi_smooth ::
  "jsnum list \<Rightarrow> jsnum list \<Rightarrow> nat \<Rightarrow> jsnum list \<times> jsnum \<times> jsnum \<Rightarrow> nat
     \<Rightarrow> jsnum list \<times> jsnum \<times> jsnum" where
  "rsi_smooth gains losses period acc i =
     (case acc of (result, avgGain, avgLoss) \<Rightarrow>
        let avgGain' = js_div (js_add (js_mul avgGain (Fin (real period - 1)))
                                      (js_nth gains (i - 1))) (Fin (real period));
            avgLoss' = js_div (js_add (js_mul avgLoss (Fin (real period - 1)))
                                      (js_nth losses (i - 1))) (Fin (real period))
        in (result @ [rsi_value avgGain' avgLoss'], avgGain', avgLoss'))"

definition calculateRSI :: "jsnum list \<Rightarrow> nat \<Rightarrow> jsnum list" where
  "calculateRSI data period =
     (let gains = rsi_gains data;
          losses = rsi_losses data;
          avgGain = js_div (js_sum (take period gains)) (Fin (real period));
          avgLoss = js_div (js_sum (take period losses)) (Fin (real period));
          result = replicate period NaN @ [rsi_value avgGain avgLoss]
      in fst (foldl (rsi_smooth gains losses period) (result, avgGain, avgLoss)
                [period + 1..<length data]))"

subsection \<open>Average directional index\<close>

text \<open>
  \<^verbatim>\<open>calculateSmoothedAverage(data, period)\<close>: the simple mean of the first \<open>period\<close>
  values, then \<^verbatim>\<open>(previous * (period - 1) + data[i]) / period\<close>.
\<close>

definition calculateSmoothedAverage :: "jsnum list \<Rightarrow> nat \<Rightarrow> jsnum list" where
  "calculateSmoothedAverage data period =
     foldl (\<lambda>result i.
              result @ [js_div (js_add (js_mul (last result) (Fin (real period - 1)))
                                       (js_nth data i)) (Fin (real period))])
       [js_div (js_sum (take period data)) (Fin (real period))]
       [period..<length data]"

text \<open>
  \<^verbatim>\<open>calculateADX(highs, lows, closes, period = 14)\<close>. The true range and the two
  directional movements per bar, their smoothed averages, the directional indicators
  \<^verbatim>\<open>(smoothedDM[i] / smoothedTR[i]) * 100\<close>, the index
  \<^verbatim>\<open>(|plusDI - minusDI| / (plusDI + minusDI)) * 100\<close> and its smoothing. Both quotients
  are plain divisions in the source.
\<close>

definition adx_tr :: "jsnum list \<Rightarrow> jsnum list \<Rightarrow> jsnum list \<Rightarrow> jsnum list" where
  "adx_tr highs lows closes =
     map (\<lambda>i. let tr1 = js_sub (js_nth highs i) (js_nth lows i);
                  tr2 = js_abs (js_sub (js_nth highs i) (js_nth closes (i - 1)));
                  tr3 = js_abs (js_sub (js_nth lows i) (js_nth closes (i - 1)))
              in js_max (js_max tr1 tr2) tr3)
         [1..<length closes]"

definition adx_plusDM :: "jsnum list \<Rightarrow> jsnum list \<Rightarrow> jsnum list \<Rightarrow> jsnum list" where
  "adx_plusDM highs lows closes =
     map (\<lambda>i. let upMove = js_sub (js_nth highs i) (js_nth highs (i - 1));
                  downMove = js_sub (js_nth lows (i - 1)) (js_nth lows i)
              in if js_gt upMove downMove \<and> js_gt upMove (Fin 0) then upMove else Fin 0)
         [1..<length closes]"

definition adx_minusDM :: "jsnum list \<Rightarrow> jsnum list \<Rightarrow> jsnum list \<Rightarrow> jsnum list" where
  "adx_minusDM highs lows closes =
     map (\<lambda>i. let upMove = js_sub (js_nth highs i) (js_nth highs (i - 1));
                  downMove = js_sub (js_nth lows (i - 1)) (js_nth lows i)
              in if js_gt downMove upMove \<and> js_gt downMove (Fin 0) then downMove else Fin 0)
         [1..<length closes]"

definition adx_di :: "jsnum list \<Rightarrow> jsnum list \<Rightarrow> jsnum list" where
  "adx_di smoothedDM smoothedTR =
     map (\<lambda>i. js_mul (js_div (js_nth smoothedDM i) (js_nth smoothedTR i)) (Fin 100))
         [0..<length smoothedTR]"

definition adx_dx :: "jsnum list \<Rightarrow> jsnum list \<Rightarrow> jsnum list" where
  "adx_dx plusDI minusDI =
     map (\<lambda>i. js_mul (js_div (js_abs (js_sub (js_nth plusDI i) (js_nth minusDI i)))
                              (js_add (js_nth plusDI i) (js_nth minusDI i))) (Fin 100))
         [0..<length plusDI]"

definition adx_smooth :: "jsnum list \<Rightarrow> nat \<Rightarrow> jsnum list \<times> jsnum \<Rightarrow> nat \<Rightarrow> jsnum list \<times> jsnum" where
  "adx_smooth dx period acc i =
     (case acc of (result, adx) \<Rightarrow>
        let adx' = js_div (js_add (js_mul adx (Fin (real period - 1))) (js_nth dx i))
                          (Fin (real period))
        in (result @ [adx'], adx'))"

definition calculateADX :: "jsnum list \<Rightarrow> jsnum list \<Rightarrow> jsnum list \<Rightarrow> nat \<Rightarrow> jsnum list" where
  "calculateADX highs lows closes period =
     (let smoothedTR = calculateSmoothedAverage (adx_tr highs lows closes) period;
          smoothedPlusDM = calculateSmoothedAverage (adx_plusDM highs lows closes) period;
          smoothedMinusDM = calculateSmoothedAverage (adx_minusDM highs lows closes) period;
          plusDI = adx_di smoothedPlusDM smoothedTR;
          minusDI = adx_di smoothedMinusDM smoothedTR;
          dx = adx_dx plusDI minusDI;
          adx = js_div (js_sum (take period dx)) (Fin (real period))
      in fst (foldl (adx_smooth dx period) (replicate (period * 2 - 1) NaN @ [adx], adx)
                [period..<length dx]))"

subsection \<open>Parabolic SAR\<close>

text \<open>
  \<^verbatim>\<open>calculateParabolicSAR(highs, lows, closes, initialAF = 0.02, maxAF = 0.2)\<close>. The
  loop variables \<^verbatim>\<open>isUptrend\<close>, \<^verbatim>\<open>ep\<close>, \<^verbatim>\<open>sar\<close> and \<^verbatim>\<open>af\<close> are the state of the
  scan; one iteration first advances and clamps the SAR (the value pushed to the result),
  then either reverses the trend or extends the extreme point.
\<close>

record sar_state =
  isUptrend :: bool
  ep :: jsnum
  sar :: jsnum
  af :: jsnum

definition psar_init :: "jsnum list \<Rightarrow> jsnum list \<Rightarrow> jsnum list \<Rightarrow> jsnum \<Rightarrow> sar_state" where
  "psar_init highs lows closes initialAF =
     (let up = js_gt (js_nth closes 1) (js_nth closes 0)
      in \<lparr>isUptrend = up,
          ep = (if up then js_nth highs 0 else js_nth lows 0),
          sar = (if up then js_nth lows 0 else js_nth highs 0),
          af = initialAF\<rparr>)"

definition psar_advance :: "jsnum list \<Rightarrow> jsnum list \<Rightarrow> sar_state \<Rightarrow> nat \<Rightarrow> jsnum" where
  "psar_advance highs lows st i =
     (let s = js_add (sar st) (js_mul (af st) (js_sub (ep st) (sar st)))
      in if isUptrend st
         then (let s1 = js_min s (js_nth lows (i - 1))
               in if 2 \<le> i then js_min s1 (js_nth lows (i - 2)) else s1)
         else (let s1 = js_max s (js_nth highs (i - 1))
               in if 2 \<le> i then js_max s1 (js_nth highs (i - 2)) else s1))"

definition psar_reverses :: "jsnum list \<Rightarrow> jsnum list \<Rightarrow> sar_state \<Rightarrow> nat \<Rightarrow> bool" where
  "psar_reverses highs lows st i =
     (let s = psar_advance highs lows st i
      in (isUptrend st \<and> js_lt (js_nth lows i) s) \<or> (\<not> isUptrend st \<and> js_gt (js_nth highs i) s))"

definition psar_step ::
  "jsnum list \<Rightarrow> jsnum list \<Rightarrow> jsnum \<Rightarrow> jsnum \<Rightarrow> sar_state \<Rightarrow> nat \<Rightarrow> sar_state" where
  "psar_step highs lows initialAF maxAF st i =
     (let s = psar_advance highs lows st i
      in if psar_reverses highs lows st i
         then (let up = \<not> isUptrend st
               in \<lparr>isUptrend = up,
                   ep = (if up then js_nth highs i else js_nth lows i),
                   sar = (if up then js_nth lows i else js_nth highs i),
                   af = initialAF\<rparr>)
         else if isUptrend st \<and> js_gt (js_nth highs i) (ep st)
         then \<lparr>isUptrend = isUptrend st, ep = js_nth highs i, sar = s,
               af = js_min (js_add (af st) initialAF) maxAF\<rparr>
         else if \<not> isUptrend st \<and> js_lt (js_nth lows i) (ep st)
         then \<lparr>isUptrend = isUptrend st, ep = js_nth lows i, sar = s,
               af = js_min (js_add (af st) initialAF) maxAF\<rparr>
         else \<lparr>isUptrend = isUptrend st, ep = ep st, sar = s, af = af st\<rparr>)"

text \<open>
  The extreme point extends at bar \<open>i\<close>: the condition of the two branches of the
  source that move \<^verbatim>\<open>ep\<close> and raise \<^verbatim>\<open>af\<close> when no reversal triggers.
\<close>

definition psar_extends :: "jsnum list \<Rightarrow> jsnum list \<Rightarrow> sar_state \<Rightarrow> nat \<Rightarrow> bool" where
  "psar_extends highs lows st i =
     ((isUptrend st \<and> js_gt (js_nth highs i) (ep st))
      \<or> (\<not> isUptrend st \<and> js_lt (js_nth lows i) (ep st)))"

text \<open>
  The scan over the bars \<open>1 .. n - 1\<close>: the result so far and the state. The function
  itself scans all of \<^verbatim>\<open>closes\<close>.
\<close>

definition psar_scan ::
  "jsnum list \<Rightarrow> jsnum list \<Rightarrow> jsnum list \<Rightarrow> jsnum \<Rightarrow> jsnum \<Rightarrow> nat \<Rightarrow> jsnum list \<times> sar_state" where
  "psar_scan highs lows closes initialAF maxAF n =
     foldl (\<lambda>acc i. case acc of (result, st) \<Rightarrow>
              (result @ [psar_advance highs lows st i], psar_step highs lows initialAF maxAF st i))
       ([NaN], psar_init highs lows closes initialAF)
       [1..<n]"

definition calculateParabolicSAR ::
  "jsnum list \<Rightarrow> jsnum list \<Rightarrow> jsnum list \<Rightarrow> jsnum \<Rightarrow> jsnum \<Rightarrow> jsnum list" where
  "calculateParabolicSAR highs lows closes initialAF maxAF =
     fst (psar_scan highs lows closes initialAF maxAF (length closes))"

text \<open>
  A three-bar run with the default acceleration factors: an uptrend whose second bar
  extends the extreme point to 11 and whose third bar falls through the SAR.
\<close>

definition sar_example_highs :: "jsnum list" where
  "sar_example_highs = [Fin 10, Fin 11, Fin 9]"

definition sar_example_lows :: "jsnum list" where
  "sar_example_lows = [Fin 9, Fin 10, Fin 7]"

definition sar_example_closes :: "jsnum list" where
  "sar_example_closes = [Fin (19 / 2), Fin (21 / 2), Fin 8]"

definition sar_example_state :: sar_state where
  "sar_example_state =
     snd (psar_scan sar_example_highs sar_example_lows sar_example_closes
            (Fin (2 / 100)) (Fin (2 / 10)) 2)"


text \<open>A flat series of 30 bars: every high, low and close is 100.\<close>

definition flat_series :: "jsnum list" where
  "flat_series = replicate 30 (Fin 100)"

section \<open>Forecast engine (prediction)\<close>

text \<open>
  \<^verbatim>\<open>StockTimeSeriesData\<close>, one daily bar. The field \<^verbatim>\<open>open\<close> is \<open>open_price\<close> here.
\<close>

record StockTimeSeriesData =
  date :: string
  open_price :: jsnum
  high :: jsnum
  low :: jsnum
  close :: jsnum
  volume :: jsnum

datatype trend_label = bullish | bearish | neutral

subsection \<open>Private helpers of the forecast engine\<close>

text \<open>
  The forecast engine has its own \<^verbatim>\<open>calculateSMA\<close>, \<^verbatim>\<open>calculateEMA\<close> and
  \<^verbatim>\<open>calculateRSI\<close>; they carry the suffix \<open>_prediction\<close> here. Its moving average is
  not padded: one output per index from \<^verbatim>\<open>window - 1\<close> on.
\<close>

definition calculateSMA_prediction :: "jsnum list \<Rightarrow> nat \<Rightarrow> jsnum list" where
  "calculateSMA_prediction data window =
     map (\<lambda>i. js_div (js_sum (js_slice data (i - int window + 1) (i + 1)))
                      (Fin (real window)))
         [int window - 1..int (length data) - 1]"

definition calculateEMA_prediction :: "jsnum list \<Rightarrow> nat \<Rightarrow> jsnum list" where
  "calculateEMA_prediction data window =
     (let k = js_div (Fin 2) (Fin (real window + 1))
      in foldl (\<lambda>emaData i.
                  emaData @ [js_add (js_mul (js_nth data i) k)
                                    (js_mul (js_nth emaData (i - 1)) (js_sub (Fin 1) k))])
           [js_nth data 0] [1..<length data])"

definition calculateRSI_prediction :: "jsnum list \<Rightarrow> nat \<Rightarrow> jsnum option list" where
  "calculateRSI_prediction data window =
     (let deltas = map (\<lambda>i. js_sub (js_nth data i) (js_nth data (i - 1))) [1..<length data];
          gains = map (\<lambda>d. if js_gt d (Fin 0) then d else Fin 0) deltas;
          losses = map (\<lambda>d. if js_lt d (Fin 0) then js_abs d else Fin 0) deltas;
          avgGain = calculateSMA_prediction gains window;
          avgLoss = calculateSMA_prediction losses window;
          rs = map (\<lambda>i. js_div (avgGain ! i) (js_or (js_nth avgLoss i) (Fin (1 / 1000))))
                 [0..<length avgGain];
          rsi = map (\<lambda>rs. js_sub (Fin 100) (js_div (Fin 100) (js_add (Fin 1) rs))) rs
      in replicate window None @ map Some rsi)"

subsection \<open>Linear regression\<close>

text \<open>
  \<^verbatim>\<open>linearRegression(xValues, yValues, predict)\<close>: one loop over the indices of
  \<^verbatim>\<open>xValues\<close> accumulates the four sums.
\<close>

definition regression_sums :: "jsnum list \<Rightarrow> jsnum list \<Rightarrow> jsnum \<times> jsnum \<times> jsnum \<times> jsnum" where
  "regression_sums xValues yValues =
     foldl (\<lambda>acc i. case acc of (sumX, sumY, sumXY, sumXX) \<Rightarrow>
              (js_add sumX (js_nth xValues i),
               js_add sumY (js_nth yValues i),
               js_add sumXY (js_mul (js_nth xValues i) (js_nth yValues i)),
               js_add sumXX (js_mul (js_nth xValues i) (js_nth xValues i))))
       (Fin 0, Fin 0, Fin 0, Fin 0)
       [0..<length xValues]"

definition linearRegression :: "jsnum list \<Rightarrow> jsnum list \<Rightarrow> jsnum \<Rightarrow> jsnum" where
  "linearRegression xValues yValues predict =
     (case regression_sums xValues yValues of (sumX, sumY, sumXY, sumXX) \<Rightarrow>
        let n = Fin (real (length xValues));
            slope = js_div (js_sub (js_mul n sumXY) (js_mul sumX sumY))
                           (js_sub (js_mul n sumXX) (js_mul sumX sumX));
            intercept = js_div (js_sub sumY (js_mul slope sumX)) n
        in js_add (js_mul slope predict) intercept)"

text \<open>\<^verbatim>\<open>Array.from({ length: w }, (_, j) => j + 1)\<close>: the positions \<open>1 .. w\<close>.\<close>

definition positions :: "nat \<Rightarrow> jsnum list" where
  "positions w = map (\<lambda>j. Fin (real (j + 1))) [0..<w]"

subsection \<open>First-difference autoregression\<close>

text \<open>
  \<^verbatim>\<open>arimaInspiredPrediction(data, daysToPredict)\<close>. The function pushes every
  prediction onto its argument \<^verbatim>\<open>data\<close>, the caller's array: the model returns the
  predictions together with the array as the call leaves it. In iteration \<^verbatim>\<open>i\<close> the
  price the difference is added to is read at \<^verbatim>\<open>data[data.length - 1 + i]\<close>, with the
  length the array has in that iteration.
\<close>

definition differences :: "jsnum list \<Rightarrow> jsnum list" where
  "differences data = map (\<lambda>i. js_sub (js_nth data i) (js_nth data (i - 1))) [1..<length data]"

definition arima_step ::
  "jsnum list \<times> jsnum list \<times> jsnum list \<Rightarrow> nat \<Rightarrow> jsnum list \<times> jsnum list \<times> jsnum list" where
  "arima_step acc i =
     (case acc of (differenced, data, predictions) \<Rightarrow>
        let window = 5;
            xValues = positions window;
            startIdx = int (length differenced) - int window;
            yValues = js_slice_from differenced startIdx;
            nextDiff = linearRegression xValues yValues (Fin (real (window + 1)));
            nextVal = js_add (js_at data (int (length data) - 1 + int i)) nextDiff
        in (differenced @ [nextDiff], data @ [nextVal], predictions @ [nextVal]))"

definition arimaInspiredPrediction :: "jsnum list \<Rightarrow> nat \<Rightarrow> jsnum list \<times> jsnum list" where
  "arimaInspiredPrediction data daysToPredict =
     (case foldl arima_step (differences data, data, []) [0..<daysToPredict] of
        (differenced, data', predictions) \<Rightarrow> (predictions, data'))"

subsection \<open>Support and resistance\<close>

text \<open>
  \<^verbatim>\<open>[...data].sort((a, b) => a - b)\<close> sorts a copy. The sort of the language is stable
  and orders by the sign of the comparator's result, a \<^verbatim>\<open>NaN\<close> result counting as
  zero; the model is the stable insertion sort under that comparator. Where the
  comparator never returns \<^verbatim>\<open>NaN\<close> every stable sort gives this order. Where it does,
  the language leaves the order to the implementation and the model is one such order;
  an array in which no element compares below an earlier one is returned as it is by
  the model (lemma \<open>js_sort_ordered\<close>), as by every sort that moves an element only
  before one it compares below, and that is the only case the statements below rely on.
\<close>

fun sort_insert :: "(jsnum \<Rightarrow> jsnum \<Rightarrow> jsnum) \<Rightarrow> jsnum \<Rightarrow> jsnum list \<Rightarrow> jsnum list" where
  "sort_insert cmp x [] = [x]"
| "sort_insert cmp x (y # ys) =
     (if js_lt (cmp x y) (Fin 0) then x # y # ys else y # sort_insert cmp x ys)"

definition js_sort :: "(jsnum \<Rightarrow> jsnum \<Rightarrow> jsnum) \<Rightarrow> jsnum list \<Rightarrow> jsnum list" where
  "js_sort cmp xs = foldl (\<lambda>sorted x. sort_insert cmp x sorted) [] xs"

text \<open>
  \<^verbatim>\<open>Math.floor(sorted.length * 0.25)\<close> and \<^verbatim>\<open>Math.floor(sorted.length * 0.75)\<close>; both
  products are exact in the source's arithmetic for every array length.
\<close>

definition findSupportResistance :: "jsnum list \<Rightarrow> jsnum \<times> jsnum" where
  "findSupportResistance data =
     (let sorted = js_sort js_sub data;
          q1Index = nat \<lfloor>real (length sorted) * (25 / 100)\<rfloor>;
          q3Index = nat \<lfloor>real (length sorted) * (75 / 100)\<rfloor>
      in (js_nth sorted q1Index, js_nth sorted q3Index))"

subsection \<open>Trend and confidence\<close>

definition determineTrend :: "jsnum list \<Rightarrow> trend_label" where
  "determineTrend data =
     (let recentDays = 10;
          recent = js_slice_from data (- recentDays);
          startPrice = js_nth recent 0;
          endPrice = js_at recent (int (length recent) - 1);
          percentChange = js_mul (js_div (js_sub endPrice startPrice) startPrice) (Fin 100)
      in if js_gt percentChange (Fin 3) then bullish
         else if js_lt percentChange (Fin (- 3)) then bearish
         else neutral)"

definition squared_error_sum :: "jsnum list \<Rightarrow> jsnum list \<Rightarrow> jsnum" where
  "squared_error_sum actual predicted =
     foldl (\<lambda>sum i. let error = js_sub (js_nth predicted i) (js_nth actual i)
                    in js_add sum (js_mul error error))
       (Fin 0) [0..<length predicted]"

definition calculateConfidence :: "jsnum list \<Rightarrow> jsnum list \<Rightarrow> jsnum" where
  "calculateConfidence actual predicted =
     (if length predicted = 0 \<or> length actual < 10 then Fin (5 / 10)
      else let mse = js_div (squared_error_sum actual predicted) (Fin (real (length predicted)));
               reference = js_mul (js_at actual (int (length actual) - 1)) (Fin (2 / 10));
               maxMSE = js_mul reference reference
           in js_max (Fin 0) (js_min (Fin 1) (js_sub (Fin 1) (js_div mse maxMSE))))"

subsection \<open>The forecast\<close>

text \<open>
  \<^verbatim>\<open>PredictionResult\<close>. The array \<^verbatim>\<open>predicted\<close> holds \<^verbatim>\<open>null\<close> in its padding:
  its entries are optional numbers.
\<close>

record PredictionResult =
  dates :: "string list"
  actual :: "jsnum list"
  predicted :: "jsnum option list"
  nextDayPrediction :: jsnum
  nextWeekPrediction :: jsnum
  confidence :: jsnum
  trend :: trend_label
  supportLevel :: jsnum
  resistanceLevel :: jsnum

text \<open>
  The exception of the source: \<^verbatim>\<open>throw new Error(message)\<close>, a plain \<^verbatim>\<open>Error\<close> that
  carries its message.
\<close>

datatype error = Error string

definition insufficient_data :: error where
  "insufficient_data =
     Error ''Insufficient data for prediction. Need at least 30 data points.''"

text \<open>
  \<^verbatim>\<open>predictStockPrices(stockData)\<close>. The array \<^verbatim>\<open>closePrices\<close> is passed to the two
  forward runs, which push onto it; the names \<open>closePrices1\<close> and \<open>closePrices2\<close> are
  the array after the first and after the second run. Every later use of
  \<^verbatim>\<open>closePrices\<close> in the source reads the array as the second run leaves it. The
  indicator values of lines 165 to 171 (\<^verbatim>\<open>sma20\<close>, \<^verbatim>\<open>ema12\<close>, \<^verbatim>\<open>ema26\<close>,
  \<^verbatim>\<open>rsi\<close>, \<^verbatim>\<open>macd\<close>) are computed before the runs and never read.
\<close>

definition backfit :: "jsnum list \<Rightarrow> jsnum list" where
  "backfit closePrices =
     (let trainingWindow = 20
      in map (\<lambda>i. linearRegression (positions trainingWindow)
                     (js_slice closePrices (int i - int trainingWindow) (int i))
                     (Fin (real (trainingWindow + 1))))
           [trainingWindow..<length closePrices])"

definition predictStockPrices :: "StockTimeSeriesData list \<Rightarrow> error + PredictionResult" where
  "predictStockPrices stockData =
     (if length stockData < 30 then Inl insufficient_data
      else
        let closePrices = map close stockData;
            dates = map date stockData;
            sma20 = calculateSMA_prediction closePrices 20;
            ema12 = calculateEMA_prediction closePrices 12;
            ema26 = calculateEMA_prediction closePrices 26;
            rsi = calculateRSI_prediction closePrices 14;
            macd = map (\<lambda>i. js_sub (ema12 ! i) (js_nth ema26 i)) [0..<length ema12];
            predictedValues = replicate 20 None @ map Some (backfit closePrices);
            (day, closePrices1) = arimaInspiredPrediction closePrices 1;
            nextDayPrediction = js_nth day 0;
            (week, closePrices2) = arimaInspiredPrediction closePrices1 7;
            nextWeekPrediction = js_nth week 6;
            (support, resistance) = findSupportResistance closePrices2;
            trend = determineTrend closePrices2;
            nonNullPredicted = map the (filter (\<lambda>p. p \<noteq> None) predictedValues);
            actual = js_slice_from closePrices2 (- int (length nonNullPredicted));
            confidence = calculateConfidence actual nonNullPredicted
        in Inr \<lparr>dates = dates,
                actual = closePrices2,
                predicted = predictedValues,
                nextDayPrediction = nextDayPrediction,
                nextWeekPrediction = nextWeekPrediction,
                confidence = confidence,
                trend = trend,
                supportLevel = support,
                resistanceLevel = resistance\<rparr>)"

subsection \<open>A well-formed result as the specification words it\<close>

text \<open>
  The data model of the specification for the \<^verbatim>\<open>ForecastResult\<close> of an input: the
  dates are the input's, \<open>actual\<close> is the echo of the input closes, \<open>predicted\<close> is
  aligned to the dates, the two forecasts and the two levels are numbers and not the
  undefined sentinel, and the confidence is a number in \<open>[0, 1]\<close>.
\<close>

definition in_unit_interval :: "jsnum \<Rightarrow> bool" where
  "in_unit_interval c = (case c of Fin x \<Rightarrow> 0 \<le> x \<and> x \<le> 1 | _ \<Rightarrow> False)"

definition spec_well_formed :: "StockTimeSeriesData list \<Rightarrow> PredictionResult \<Rightarrow> bool" where
  "spec_well_formed stockData r =
     (dates r = map date stockData
      \<and> actual r = map close stockData
      \<and> length (predicted r) = length (dates r)
      \<and> nextDayPrediction r \<noteq> NaN
      \<and> nextWeekPrediction r \<noteq> NaN
      \<and> in_unit_interval (confidence r)
      \<and> supportLevel r \<noteq> NaN
      \<and> resistanceLevel r \<noteq> NaN)"

text \<open>
  Names for the statements below: the difference one iteration of the forward run
  predicts from the differences so far, the one-day forecast of a series, and the array
  \<^verbatim>\<open>closePrices\<close> as the two forward runs of \<open>predictStockPrices\<close> leave it.
\<close>

definition next_difference :: "jsnum list \<Rightarrow> jsnum" where
  "next_difference differenced =
     linearRegression (positions 5) (js_slice_from differenced (int (length differenced) - 5))
       (Fin 6)"

definition closes_after_runs :: "jsnum list \<Rightarrow> jsnum list" where
  "closes_after_runs closePrices =
     snd (arimaInspiredPrediction (snd (arimaInspiredPrediction closePrices 1)) 7)"

definition forward_day :: "jsnum list \<Rightarrow> jsnum" where
  "forward_day closePrices = js_nth (fst (arimaInspiredPrediction closePrices 1)) 0"

subsection \<open>The forward forecast as the specification words it\<close>

text \<open>
  For comparison with \<open>arimaInspiredPrediction\<close>: the procedure of the specification.
  Each step fits the last five differences at the positions 1 to 5, evaluates the fit at
  position 6, appends the difference, and adds it to the previous reconstructed price,
  the last close at the first step. The input series is not changed.
\<close>

fun spec_forecast_steps :: "jsnum list \<Rightarrow> jsnum \<Rightarrow> nat \<Rightarrow> jsnum list" where
  "spec_forecast_steps differenced previous 0 = []"
| "spec_forecast_steps differenced previous (Suc h) =
     (let nextDiff = linearRegression (positions 5)
                       (js_slice_from differenced (int (length differenced) - 5)) (Fin 6);
          price = js_add previous nextDiff
      in price # spec_forecast_steps (differenced @ [nextDiff]) price h)"

definition spec_forecast :: "jsnum list \<Rightarrow> nat \<Rightarrow> jsnum list" where
  "spec_forecast closes h =
     spec_forecast_steps (differences closes) (js_at closes (int (length closes) - 1)) h"

subsection \<open>A 30-bar input\<close>

text \<open>
  Thirty daily bars whose closes rise from 100 to 129 by 1 a day, dated 2024-01-01 to
  2024-01-30.
\<close>

definition day_string :: "nat \<Rightarrow> string" where
  "day_string d = [char_of (48 + d div 10), char_of (48 + d mod 10)]"

definition rising_bar :: "nat \<Rightarrow> StockTimeSeriesData" where
  "rising_bar k =
     \<lparr>date = ''2024-01-'' @ day_string (k + 1),
      open_price = Fin (real (100 + k)),
      high = Fin (real (101 + k)),
      low = Fin (real (99 + k)),
      close = Fin (real (100 + k)),
      volume = Fin 1000\<rparr>"

definition rising_bars :: "StockTimeSeriesData list" where
  "rising_bars = map rising_bar [0..<30]"

text \<open>The closes of the 30-bar input.\<close>

definition rising_closes :: "jsnum list" where
  "rising_closes =
     [Fin 100, Fin 101, Fin 102, Fin 103, Fin 104, Fin 105, Fin 106, Fin 107, Fin 108, Fin 109,
      Fin 110, Fin 111, Fin 112, Fin 113, Fin 114, Fin 115, Fin 116, Fin 117, Fin 118, Fin 119,
      Fin 120, Fin 121, Fin 122, Fin 123, Fin 124, Fin 125, Fin 126, Fin 127, Fin 128, Fin 129]"

section \<open>Properties\<close>

subsection \<open>Arithmetic of the number model\<close>

lemma js_add_commute: "js_add a b = js_add b a"
  by (cases a; cases b) simp_all

lemma js_add_assoc: "js_add (js_add a b) c = js_add a (js_add b c)"
  by (cases a; cases b; cases c) simp_all

lemma js_add_zero [simp]: "js_add (Fin 0) a = a" "js_add a (Fin 0) = a"
  by (cases a; simp)+

lemma foldl_js_add_shift: "foldl js_add (js_add a b) xs = js_add a (foldl js_add b xs)"
  by (induction xs arbitrary: b) (simp_all add: js_add_assoc)

lemma js_sum_Nil [simp]: "js_sum [] = Fin 0"
  by (simp add: js_sum_def)

lemma js_sum_Cons [simp]: "js_sum (x # xs) = js_add x (js_sum xs)"
  by (simp add: js_sum_def foldl_js_add_shift [symmetric])

lemma js_sum_append: "js_sum (xs @ ys) = js_add (js_sum xs) (js_sum ys)"
  by (induction xs) (simp_all add: js_add_assoc)

lemma js_sum_rev: "js_sum (rev xs) = js_sum xs"
  by (induction xs) (simp_all add: js_sum_append js_add_commute)

subsection \<open>Simple moving average\<close>

lemma sma_window_rev:
  assumes "i < length data" and "P \<le> i + 1"
  shows "map (\<lambda>j. data ! (i - j)) [0..<P] = rev (take P (drop (i + 1 - P) data))"
proof (rule nth_equalityI)
  show "length (map (\<lambda>j. data ! (i - j)) [0..<P])
        = length (rev (take P (drop (i + 1 - P) data)))"
    using assms by simp
next
  fix j assume "j < length (map (\<lambda>j. data ! (i - j)) [0..<P])"
  then have j: "j < P" by simp
  have len: "length (take P (drop (i + 1 - P) data)) = P"
    using assms by simp
  from j have "rev (take P (drop (i + 1 - P) data)) ! j
               = take P (drop (i + 1 - P) data) ! (P - Suc j)"
    using len by (simp add: rev_nth)
  also have "\<dots> = data ! (i + 1 - P + (P - Suc j))"
    using j assms by simp
  also have "i + 1 - P + (P - Suc j) = i - j"
    using j assms by simp
  finally show "map (\<lambda>j. data ! (i - j)) [0..<P] ! j
                = rev (take P (drop (i + 1 - P) data)) ! j"
    using j by simp
qed

text \<open>Every read of the inner loop is in range, and the sum runs down the window.\<close>

lemma sma_window_sum_eq:
  assumes "i < length data" and "P \<le> i + 1"
  shows "sma_window_sum add zero nan data (real P) i
         = foldl add zero (rev (take P (drop (i + 1 - P) data)))"
proof -
  have "sma_window_sum add zero nan data (real P) i
        = foldl (\<lambda>sum j. add sum (data ! (i - j))) zero [0..<P]"
    unfolding sma_window_sum_def using assms
    by (intro foldl_cong) auto
  also have "\<dots> = foldl add zero (map (\<lambda>j. data ! (i - j)) [0..<P])"
    by (simp add: foldl_map)
  finally show ?thesis
    using assms by (simp only: sma_window_rev)
qed

lemma calculateSMA_length:
  "length (calculateSMA add divby zero nan data period) = length data"
  by (simp add: calculateSMA_def)

text \<open>
  C9, for the indicator engine's \<open>calculateSMA\<close>, in every arithmetic. For every
  natural period \<open>P\<close> the output has the input's length; on an input shorter than \<open>P\<close>
  every entry is \<open>NaN\<close>; on every input the entry at each index \<open>i < P - 1\<close> is
  \<open>NaN\<close>, and the entry at each index \<open>i \<ge> P - 1\<close> is the sum of the window
  \<open>data[i - P + 1 .. i]\<close>, added onto 0 from \<open>data[i]\<close> down to \<open>data[i - P + 1]\<close>,
  divided by \<open>P\<close>.
\<close>

theorem calculateSMA_aligned_window:
  "length (calculateSMA add divby zero nan data (real P)) = length data
   \<and> (length data < P \<longrightarrow>
        calculateSMA add divby zero nan data (real P) = replicate (length data) nan)
   \<and> (\<forall>i < length data. i + 1 < P \<longrightarrow>
        calculateSMA add divby zero nan data (real P) ! i = nan)
   \<and> (\<forall>i < length data. P \<le> i + 1 \<longrightarrow>
        calculateSMA add divby zero nan data (real P) ! i
          = divby (foldl add zero (rev (take P (drop (i + 1 - P) data)))) (real P))"
proof (intro conjI allI impI)
  show "length (calculateSMA add divby zero nan data (real P)) = length data"
    by (rule calculateSMA_length)
next
  assume "length data < P"
  then show "calculateSMA add divby zero nan data (real P) = replicate (length data) nan"
    by (intro nth_equalityI) (auto simp add: calculateSMA_def)
next
  fix i assume "i < length data" "i + 1 < P"
  then show "calculateSMA add divby zero nan data (real P) ! i = nan"
    by (auto simp add: calculateSMA_def)
next
  fix i assume i: "i < length data" "P \<le> i + 1"
  then have "\<not> real i < real P - 1"
    by auto
  with i show "calculateSMA add divby zero nan data (real P) ! i
          = divby (foldl add zero (rev (take P (drop (i + 1 - P) data)))) (real P)"
    by (simp add: calculateSMA_def sma_window_sum_eq)
qed

theorem calculateSMA_aligned_window_witness:
  "length (calculateSMA_exact [Fin 1, Fin 2, Fin 6, Fin 4] 2) = 4
   \<and> calculateSMA_exact [Fin 1] 2 = [NaN]
   \<and> calculateSMA_exact [Fin 1, Fin 2, Fin 6, Fin 4] 2 ! 0 = NaN
   \<and> calculateSMA_exact [Fin 1, Fin 2, Fin 6, Fin 4] 2 ! 2 = Fin 4"
  using calculateSMA_aligned_window
      [of js_add "\<lambda>s p. js_div s (Fin p)" "Fin 0" NaN "[Fin 1, Fin 2, Fin 6, Fin 4]" 2]
    calculateSMA_aligned_window [of js_add "\<lambda>s p. js_div s (Fin p)" "Fin 0" NaN "[Fin 1]" 2]
  by (simp add: calculateSMA_exact_def)

text \<open>
  Where the arithmetic is exact the sum does not depend on its order, and the entry is
  the arithmetic mean of the window.
\<close>

lemma calculateSMA_exact_mean:
  assumes "i < length data" and "P \<le> i + 1"
  shows "calculateSMA_exact data (real P) ! i = js_mean (take P (drop (i + 1 - P) data))"
proof -
  have "length (take P (drop (i + 1 - P) data)) = P"
    using assms by simp
  moreover have "foldl js_add (Fin 0) (rev (take P (drop (i + 1 - P) data)))
                 = js_sum (take P (drop (i + 1 - P) data))"
    unfolding js_sum_def [symmetric] by (rule js_sum_rev)
  ultimately show ?thesis
    using calculateSMA_aligned_window
      [of js_add "\<lambda>s p. js_div s (Fin p)" "Fin 0" NaN data P] assms
    by (simp add: calculateSMA_exact_def js_mean_def)
qed

text \<open>
  A period that is not a natural number: with the period \<open>5 / 2\<close> the entry at index 2
  is the sum of three values divided by \<open>5 / 2\<close>, and with a negative period no
  entry is \<open>NaN\<close>.
\<close>

lemma calculateSMA_fractional_period:
  "calculateSMA_exact [Fin 1, Fin 2, Fin 3] (5 / 2) = [NaN, NaN, Fin (12 / 5)]"
proof -
  have "nat \<lceil>5 / 2 :: real\<rceil> = 3"
    by (simp add: ceiling_eq_iff)
  then show ?thesis
    by (simp add: calculateSMA_exact_def calculateSMA_def sma_window_sum_def upt_conv_Cons)
qed
lemma calculateSMA_negative_period:
  "calculateSMA_exact [Fin 1, Fin 2] (- 1) = [Fin 0, Fin 0]"
  by (simp add: calculateSMA_exact_def calculateSMA_def sma_window_sum_def upt_conv_Cons)

text \<open>
  The forecast engine's helper of the same name is not padded: its output is shorter
  than its input by \<open>window - 1\<close>, and empty on an input shorter than the window.
\<close>

lemma calculateSMA_prediction_length:
  "length (calculateSMA_prediction data window) = nat (int (length data) - int window + 1)"
  by (simp add: calculateSMA_prediction_def)

theorem calculateSMA_prediction_short_counterexample:
  "length [Fin 1, Fin 2] < 3
   \<and> calculateSMA_prediction [Fin 1, Fin 2] 3 = []
   \<and> length (calculateSMA_prediction [Fin 1, Fin 2] 3) \<noteq> length [Fin 1, Fin 2]"
  by (simp add: calculateSMA_prediction_def)

subsection \<open>Parabolic SAR\<close>

lemma sar_example_state_eq:
  "sar_example_state = \<lparr>isUptrend = True, ep = Fin 11, sar = Fin 9, af = Fin (4 / 100)\<rparr>"
  by (simp add: sar_example_state_def psar_scan_def psar_init_def psar_step_def
      psar_reverses_def psar_advance_def sar_example_highs_def sar_example_lows_def
      sar_example_closes_def js_nth_def js_gt_def js_min_def js_max_def js_sub_def Let_def
      upt_conv_Cons)

lemma sar_example_advance:
  "psar_advance sar_example_highs sar_example_lows sar_example_state 2 = Fin 9"
  by (simp add: sar_example_state_eq psar_advance_def sar_example_highs_def
      sar_example_lows_def js_nth_def js_min_def js_sub_def Let_def)

text \<open>
  C4, as the code has it. Whenever a reversal triggers at bar \<open>i\<close> (in an uptrend the
  bar's low is below the SAR advanced for this bar, in a downtrend the bar's high is
  above it), the trend flips, the SAR is set to the current bar's high (new downtrend) or
  low (new uptrend), the extreme point is set to the current bar's low (new downtrend) or
  high (new uptrend), and the acceleration factor is set to its initial value.
\<close>

theorem psar_step_reversal:
  assumes "(isUptrend st \<and> js_lt (js_nth lows i) (psar_advance highs lows st i))
           \<or> (\<not> isUptrend st \<and> js_gt (js_nth highs i) (psar_advance highs lows st i))"
  shows "psar_step highs lows initialAF maxAF st i =
           \<lparr>isUptrend = \<not> isUptrend st,
            ep = (if isUptrend st then js_nth lows i else js_nth highs i),
            sar = (if isUptrend st then js_nth highs i else js_nth lows i),
            af = initialAF\<rparr>"
  using assms by (auto simp add: psar_step_def psar_reverses_def Let_def)

text \<open>
  The SAR after a reversal is not the prior extreme point: in the three-bar run the
  extreme point before the reversal at bar 2 is 11 and the SAR after it is 9, the high of
  bar 2.
\<close>

theorem psar_reversal_sar_counterexample:
  "isUptrend sar_example_state
   \<and> js_lt (js_nth sar_example_lows 2)
        (psar_advance sar_example_highs sar_example_lows sar_example_state 2)
   \<and> ep sar_example_state = Fin 11
   \<and> sar (psar_step sar_example_highs sar_example_lows (Fin (2 / 100)) (Fin (2 / 10))
            sar_example_state 2) = Fin 9
   \<and> sar (psar_step sar_example_highs sar_example_lows (Fin (2 / 100)) (Fin (2 / 10))
            sar_example_state 2) \<noteq> ep sar_example_state"
  by (simp add: sar_example_advance psar_step_def psar_reverses_def Let_def)
     (simp add: sar_example_state_eq sar_example_lows_def sar_example_highs_def js_nth_def)

theorem psar_step_reversal_witness:
  "psar_step sar_example_highs sar_example_lows (Fin (2 / 100)) (Fin (2 / 10))
     sar_example_state 2 = \<lparr>isUptrend = False, ep = Fin 7, sar = Fin 9, af = Fin (2 / 100)\<rparr>"
proof -
  have "isUptrend sar_example_state
        \<and> js_lt (js_nth sar_example_lows 2)
            (psar_advance sar_example_highs sar_example_lows sar_example_state 2)"
    by (simp add: sar_example_advance)
       (simp add: sar_example_state_eq sar_example_lows_def js_nth_def)
  then show ?thesis
    using psar_step_reversal [of sar_example_state sar_example_lows 2 sar_example_highs
        "Fin (2 / 100)" "Fin (2 / 10)"]
    by (simp add: sar_example_state_eq sar_example_lows_def sar_example_highs_def js_nth_def)
qed

lemma psar_scan_Suc:
  "1 \<le> n \<Longrightarrow> snd (psar_scan highs lows closes initialAF maxAF (Suc n))
     = psar_step highs lows initialAF maxAF
         (snd (psar_scan highs lows closes initialAF maxAF n)) n"
  by (simp add: psar_scan_def split: prod.splits)

lemma psar_scan_init:
  "n \<le> 1 \<Longrightarrow> snd (psar_scan highs lows closes initialAF maxAF n)
     = psar_init highs lows closes initialAF"
  by (simp add: psar_scan_def)

lemma psar_step_af_eq:
  "af (psar_step highs lows initialAF maxAF st i) =
     (if psar_reverses highs lows st i then initialAF
      else if psar_extends highs lows st i then js_min (js_add (af st) initialAF) maxAF
      else af st)"
  by (auto simp add: psar_step_def psar_extends_def Let_def)

lemma js_le_extend:
  assumes "js_le (Fin 0) i" "js_le i m" "js_le i a" "js_le a m"
  shows "js_le i (js_min (js_add a i) m) \<and> js_le (js_min (js_add a i) m) m
         \<and> js_le a (js_min (js_add a i) m)"
  using assms by (cases i; cases m; cases a) (auto simp add: js_min_def)

lemma js_le_refl: "js_le (Fin 0) i \<Longrightarrow> js_le i i"
  by (cases i) auto

lemma psar_step_af_le:
  assumes "js_le (Fin 0) initialAF" "js_le initialAF maxAF"
    and "js_le initialAF (af st)" "js_le (af st) maxAF"
  shows "js_le initialAF (af (psar_step highs lows initialAF maxAF st i))
         \<and> js_le (af (psar_step highs lows initialAF maxAF st i)) maxAF"
  using assms js_le_extend [OF assms] js_le_refl [OF assms(1)]
  by (simp add: psar_step_af_eq)

lemma psar_scan_af_le:
  assumes "js_le (Fin 0) initialAF" "js_le initialAF maxAF"
  shows "js_le initialAF (af (snd (psar_scan highs lows closes initialAF maxAF n)))
         \<and> js_le (af (snd (psar_scan highs lows closes initialAF maxAF n))) maxAF"
proof (induction n)
  case 0
  show ?case
    using assms js_le_refl [OF assms(1)] by (simp add: psar_scan_init psar_init_def Let_def)
next
  case (Suc n)
  show ?case
  proof (cases "1 \<le> n")
    case True
    then show ?thesis
      using psar_step_af_le [OF assms] Suc by (simp add: psar_scan_Suc)
  next
    case False
    then show ?thesis
      using assms js_le_refl [OF assms(1)] by (simp add: psar_scan_init psar_init_def Let_def)
  qed
qed

text \<open>
  C10, with the initial factor non-negative. For factors with
  \<open>0 \<le> initialAF \<le> maxAF\<close> (comparisons of the language, false on \<open>NaN\<close>) the
  acceleration factor lies between \<open>initialAF\<close> and \<open>maxAF\<close> after every number
  \<open>n\<close> of iterations of the scan, on every input. It is \<open>initialAF\<close> before the
  first iteration; the iteration at bar \<open>n\<close> sets it to \<open>initialAF\<close> on a reversal,
  to \<open>min (af + initialAF) maxAF\<close> when the extreme point extends without a reversal,
  and leaves it as it is otherwise; and \<open>min (af + initialAF) maxAF\<close> is never below
  \<open>af\<close>.
\<close>

theorem psar_af_invariant:
  assumes "js_le (Fin 0) initialAF" "js_le initialAF maxAF"
  shows "js_le initialAF (af (snd (psar_scan highs lows closes initialAF maxAF n)))
   \<and> js_le (af (snd (psar_scan highs lows closes initialAF maxAF n))) maxAF
   \<and> (n \<le> 1 \<longrightarrow> af (snd (psar_scan highs lows closes initialAF maxAF n)) = initialAF)
   \<and> (1 \<le> n \<longrightarrow>
        af (snd (psar_scan highs lows closes initialAF maxAF (Suc n))) =
          (if psar_reverses highs lows (snd (psar_scan highs lows closes initialAF maxAF n)) n
           then initialAF
           else if psar_extends highs lows (snd (psar_scan highs lows closes initialAF maxAF n)) n
           then js_min (js_add (af (snd (psar_scan highs lows closes initialAF maxAF n)))
                               initialAF) maxAF
           else af (snd (psar_scan highs lows closes initialAF maxAF n))))
   \<and> js_le (af (snd (psar_scan highs lows closes initialAF maxAF n)))
        (js_min (js_add (af (snd (psar_scan highs lows closes initialAF maxAF n))) initialAF)
           maxAF)"
proof -
  let ?st = "snd (psar_scan highs lows closes initialAF maxAF n)"
  have inv: "js_le initialAF (af ?st) \<and> js_le (af ?st) maxAF"
    by (rule psar_scan_af_le [OF assms])
  then have "js_le (af ?st) (js_min (js_add (af ?st) initialAF) maxAF)"
    using js_le_extend [OF assms] by blast
  moreover have "n \<le> 1 \<longrightarrow> af ?st = initialAF"
    by (simp add: psar_scan_init psar_init_def Let_def)
  moreover have "1 \<le> n \<longrightarrow>
        af (snd (psar_scan highs lows closes initialAF maxAF (Suc n))) =
          (if psar_reverses highs lows ?st n then initialAF
           else if psar_extends highs lows ?st n
           then js_min (js_add (af ?st) initialAF) maxAF
           else af ?st)"
    by (simp add: psar_scan_Suc psar_step_af_eq)
  ultimately show ?thesis
    using inv by blast
qed

text \<open>
  With \<open>initialAF \<le> maxAF\<close> alone the bound fails: for \<open>initialAF = -1\<close> and
  \<open>maxAF = 0\<close> an extension of the extreme point moves the factor to \<open>-2\<close>.
\<close>

theorem psar_af_bounds_counterexample:
  "(- 1 :: real) \<le> 0 \<and> (- 2 :: real) < - 1
   \<and> js_le (Fin (- 1)) (Fin 0)
   \<and> \<not> js_le (Fin (- 1)) (Fin (- 2))
   \<and> af (snd (psar_scan [Fin 10, Fin 11] [Fin 9, Fin 10] [Fin (19 / 2), Fin (21 / 2)]
              (Fin (- 1)) (Fin 0) 2)) = Fin (- 2)"
  by (simp add: psar_scan_def psar_init_def psar_step_def
      psar_reverses_def psar_advance_def js_nth_def js_gt_def js_min_def js_max_def js_sub_def Let_def
      upt_conv_Cons)

theorem psar_af_invariant_witness:
  "js_le (Fin 0) (Fin (2 / 100)) \<and> js_le (Fin (2 / 100)) (Fin (2 / 10))
   \<and> js_le (Fin (2 / 100))
        (af (snd (psar_scan sar_example_highs sar_example_lows sar_example_closes
                    (Fin (2 / 100)) (Fin (2 / 10)) 2)))
   \<and> js_le (af (snd (psar_scan sar_example_highs sar_example_lows sar_example_closes
                       (Fin (2 / 100)) (Fin (2 / 10)) 2)))
        (Fin (2 / 10))
   \<and> af (snd (psar_scan sar_example_highs sar_example_lows sar_example_closes
              (Fin (2 / 100)) (Fin (2 / 10)) (Suc 2))) = Fin (2 / 100)"
proof -
  have h: "js_le (Fin 0) (Fin (2 / 100))" "js_le (Fin (2 / 100)) (Fin (2 / 10))"
    by simp_all
  note inv = psar_af_invariant
    [OF h, of sar_example_highs sar_example_lows sar_example_closes 2]
  have rev: "psar_reverses sar_example_highs sar_example_lows
               (snd (psar_scan sar_example_highs sar_example_lows sar_example_closes
                       (Fin (2 / 100)) (Fin (2 / 10)) 2)) 2"
    unfolding sar_example_state_def [symmetric]
    by (simp add: psar_reverses_def sar_example_advance Let_def)
       (simp add: sar_example_state_eq sar_example_lows_def js_nth_def)
  have "(1::nat) \<le> 2"
    by simp
  with inv rev have "af (snd (psar_scan sar_example_highs sar_example_lows sar_example_closes
              (Fin (2 / 100)) (Fin (2 / 10)) (Suc 2))) = Fin (2 / 100)"
    by presburger
  with inv h show ?thesis
    by blast
qed

subsection \<open>The forward runs and what they leave behind\<close>

lemma js_NaN_simps [simp]:
  "js_sub NaN b = NaN" "js_sub a NaN = NaN" "js_div a NaN = NaN" "js_mul a NaN = NaN"
  "js_add a NaN = NaN" "js_min a NaN = NaN" "js_max a NaN = NaN" "js_min NaN a = NaN"
  "js_max NaN a = NaN" "\<not> js_gt NaN a" "\<not> js_gt a NaN" "\<not> js_lt a NaN"
  by (cases a; cases b; simp add: js_sub_def js_min_def js_max_def js_gt_def)+

lemma js_at_last: "xs \<noteq> [] \<Longrightarrow> js_at xs (int (length xs) - 1) = last xs"
  by (cases xs rule: rev_cases) (simp_all add: js_at_def)

lemma js_at_beyond: "int (length xs) \<le> k \<Longrightarrow> js_at xs k = NaN"
  by (simp add: js_at_def)

lemma arima_step_first:
  "arima_step (d, data, preds) 0 =
     (d @ [next_difference d],
      data @ [js_add (js_at data (int (length data) - 1)) (next_difference d)],
      preds @ [js_add (js_at data (int (length data) - 1)) (next_difference d)])"
  by (simp add: arima_step_def next_difference_def Let_def)

lemma arima_step_later:
  "1 \<le> i \<Longrightarrow> arima_step (d, data, preds) i =
     (d @ [next_difference d], data @ [NaN], preds @ [NaN])"
  by (simp add: arima_step_def next_difference_def Let_def js_at_beyond)

lemma arima_fold_later:
  "1 \<le> i \<Longrightarrow> \<exists>d'. foldl arima_step (d, data, preds) [i..<i + k] =
     (d', data @ replicate k NaN, preds @ replicate k NaN)"
proof (induction k)
  case 0
  then show ?case by simp
next
  case (Suc k)
  then obtain d' where
    "foldl arima_step (d, data, preds) [i..<i + k] =
       (d', data @ replicate k NaN, preds @ replicate k NaN)"
    by blast
  with Suc.prems show ?case
    by (simp add: arima_step_later replicate_append_same)
qed

lemma arimaInspiredPrediction_Suc:
  "arimaInspiredPrediction data (Suc k) =
     (js_add (js_at data (int (length data) - 1)) (next_difference (differences data))
        # replicate k NaN,
      data @ js_add (js_at data (int (length data) - 1)) (next_difference (differences data))
        # replicate k NaN)"
proof -
  let ?v = "js_add (js_at data (int (length data) - 1)) (next_difference (differences data))"
  have "[0..<Suc k] = 0 # [1..<1 + k]"
    by (simp add: upt_conv_Cons)
  then have "foldl arima_step (differences data, data, []) [0..<Suc k]
             = foldl arima_step (differences data @ [next_difference (differences data)],
                 data @ [?v], [?v]) [1..<1 + k]"
    by (simp add: arima_step_first)
  moreover obtain d' where
    "foldl arima_step (differences data @ [next_difference (differences data)],
        data @ [?v], [?v]) [1..<1 + k]
     = (d', (data @ [?v]) @ replicate k NaN, [?v] @ replicate k NaN)"
    using arima_fold_later [of 1] by blast
  ultimately show ?thesis
    by (simp add: arimaInspiredPrediction_def)
qed

lemma slice_from_last:
  assumes "ys \<noteq> []" and "k < 0"
  shows "js_slice_from ys k \<noteq> [] \<and> last (js_slice_from ys k) = last ys"
proof -
  from assms have "0 < length ys" by simp
  with assms have "slice_bound (length ys) k < length ys"
    unfolding slice_bound_def by (simp add: max_def) linarith
  then show ?thesis
    unfolding js_slice_from_def by (simp add: last_drop)
qed

lemma determineTrend_NaN_last: "determineTrend (xs @ [NaN]) = neutral"
proof -
  let ?recent = "js_slice_from (xs @ [NaN]) (- 10)"
  have "?recent \<noteq> [] \<and> last ?recent = last (xs @ [NaN])"
    by (rule slice_from_last) simp_all
  then have "js_at ?recent (int (length ?recent) - 1) = NaN"
    by (simp add: js_at_last)
  then show ?thesis
    by (simp add: determineTrend_def Let_def)
qed

lemma calculateConfidence_NaN_last:
  assumes "10 \<le> length act" "pred \<noteq> []" "last act = NaN"
  shows "calculateConfidence act pred = NaN"
proof -
  from assms have "act \<noteq> []" by auto
  with assms have "js_at act (int (length act) - 1) = NaN"
    by (simp add: js_at_last)
  with assms show ?thesis
    by (simp add: calculateConfidence_def Let_def)
qed


lemma arimaInspiredPrediction_1:
  "arimaInspiredPrediction data (Suc 0) = ([forward_day data], data @ [forward_day data])"
  using arimaInspiredPrediction_Suc [of data 0]
  by (simp add: forward_day_def js_nth_def)

lemma arimaInspiredPrediction_7:
  "arimaInspiredPrediction data 7 =
     (forward_day data # replicate 6 NaN, data @ forward_day data # replicate 6 NaN)"
proof -
  have "arimaInspiredPrediction data (Suc 6) =
     (forward_day data # replicate 6 NaN, data @ forward_day data # replicate 6 NaN)"
    unfolding arimaInspiredPrediction_Suc
    using arimaInspiredPrediction_Suc [of data 0]
    by (simp add: forward_day_def js_nth_def)
  then show ?thesis by simp
qed

lemma closes_after_runs_eq:
  "closes_after_runs cs =
     cs @ forward_day cs # forward_day (cs @ [forward_day cs]) # replicate 6 NaN"
  by (simp add: closes_after_runs_def arimaInspiredPrediction_1 arimaInspiredPrediction_7)

lemma closes_after_runs_length: "length (closes_after_runs cs) = length cs + 8"
  by (simp add: closes_after_runs_eq)

lemma closes_after_runs_last: "last (closes_after_runs cs) = NaN"
  by (simp add: closes_after_runs_eq)

lemma closes_after_runs_snoc: "\<exists>ys. closes_after_runs cs = ys @ [NaN]"
proof -
  have "closes_after_runs cs \<noteq> []"
    by (simp add: closes_after_runs_eq)
  then show ?thesis
    using closes_after_runs_last [of cs] by (metis append_butlast_last_id)
qed

lemma slice_from_length:
  "0 < m \<Longrightarrow> m \<le> length ys \<Longrightarrow> length (js_slice_from ys (- int m)) = m"
  unfolding js_slice_from_def slice_bound_def by (simp add: max_def) linarith

lemma backfit_length: "length (backfit cs) = length cs - 20"
  by (simp add: backfit_def Let_def)

lemma nonNull_backfit:
  "map the (filter (\<lambda>p. p \<noteq> None) (replicate 20 None @ map Some bf)) = bf"
  by (simp add: filter_map comp_def map_idI)

lemma predictStockPrices_result:
  assumes "30 \<le> length stockData"
  shows "predictStockPrices stockData =
     Inr \<lparr>dates = map date stockData,
          actual = closes_after_runs (map close stockData),
          predicted = replicate 20 None @ map Some (backfit (map close stockData)),
          nextDayPrediction = forward_day (map close stockData),
          nextWeekPrediction = NaN,
          confidence = NaN,
          trend = neutral,
          supportLevel = fst (findSupportResistance (closes_after_runs (map close stockData))),
          resistanceLevel = snd (findSupportResistance (closes_after_runs (map close stockData)))\<rparr>"
proof -
  let ?cs = "map close stockData"
  let ?final = "closes_after_runs ?cs"
  let ?bf = "backfit ?cs"
  have runs: "arimaInspiredPrediction ?cs (Suc 0) = ([forward_day ?cs], ?cs @ [forward_day ?cs])"
    "arimaInspiredPrediction (?cs @ [forward_day ?cs]) 7 =
       (forward_day (?cs @ [forward_day ?cs]) # replicate 6 NaN, ?final)"
    by (simp_all add: arimaInspiredPrediction_1 arimaInspiredPrediction_7 closes_after_runs_eq)
  have week: "js_nth (forward_day (?cs @ [forward_day ?cs]) # replicate 6 NaN) 6 = NaN"
    by (simp add: js_nth_def)
  have tr: "determineTrend ?final = neutral"
    using closes_after_runs_snoc [of ?cs] by (auto simp add: determineTrend_NaN_last)
  have len: "length ?bf = length stockData - 20" "0 < length ?bf" "length ?bf \<le> length ?final"
    using assms by (simp_all add: backfit_length closes_after_runs_length)
  have "?final \<noteq> []"
    using closes_after_runs_length [of ?cs] by auto
  then have "last (js_slice_from ?final (- int (length ?bf))) = NaN"
    using slice_from_last [of ?final "- int (length ?bf)"] len(2)
    by (simp add: closes_after_runs_last)
  moreover have "length (js_slice_from ?final (- int (length ?bf))) = length ?bf"
    using len(2,3) by (rule slice_from_length)
  then have "10 \<le> length (js_slice_from ?final (- int (length ?bf)))"
    using len(1) assms by simp
  moreover have "?bf \<noteq> []"
    using len by auto
  ultimately have conf:
    "calculateConfidence (js_slice_from ?final (- int (length ?bf))) ?bf = NaN"
    by (simp add: calculateConfidence_NaN_last)
  show ?thesis
    using assms
    by (simp add: predictStockPrices_def Let_def runs week tr conf nonNull_backfit
        js_nth_def split: prod.splits)
qed

subsection \<open>The forecast on the 30-bar input\<close>

lemma rising_bars_closes: "map close rising_bars = rising_closes"
  by (simp add: rising_bars_def rising_bar_def rising_closes_def upt_conv_Cons)

lemma linearRegression_5:
  "linearRegression (positions 5) [Fin a, Fin b, Fin c, Fin d, Fin e] (Fin 6)
     = Fin ((- 4 * a - b + 2 * c + 5 * d + 8 * e) / 10)"
  by (simp add: linearRegression_def regression_sums_def positions_def js_nth_def js_sub_def
      upt_conv_Cons Let_def field_simps)

lemma rising_differences_tail:
  "js_slice_from (differences rising_closes) (int (length (differences rising_closes)) - 5)
     = [Fin 1, Fin 1, Fin 1, Fin 1, Fin 1]"
  by (simp add: differences_def rising_closes_def js_slice_from_def slice_bound_def
      js_nth_def js_sub_def upt_conv_Cons)

lemma forward_day_eq:
  "forward_day data =
     js_add (js_at data (int (length data) - 1)) (next_difference (differences data))"
  using arimaInspiredPrediction_Suc [of data 0]
  by (simp add: forward_day_def js_nth_def)

lemma rising_forward_day: "forward_day rising_closes = Fin 130"
proof -
  have "next_difference (differences rising_closes) = Fin 1"
    unfolding next_difference_def rising_differences_tail by (simp add: linearRegression_5)
  moreover have "js_at rising_closes (int (length rising_closes) - 1) = Fin 129"
    by (simp add: js_at_def rising_closes_def)
  ultimately show ?thesis
    by (simp add: forward_day_eq)
qed

lemma rising_differences_tail_2:
  "js_slice_from (differences (rising_closes @ [Fin 130]))
       (int (length (differences (rising_closes @ [Fin 130]))) - 5)
     = [Fin 1, Fin 1, Fin 1, Fin 1, Fin 1]"
  by (simp add: differences_def rising_closes_def js_slice_from_def slice_bound_def
      js_nth_def js_sub_def upt_conv_Cons)

lemma rising_forward_day_2: "forward_day (rising_closes @ [Fin 130]) = Fin 131"
proof -
  have "next_difference (differences (rising_closes @ [Fin 130])) = Fin 1"
    unfolding next_difference_def rising_differences_tail_2 by (simp add: linearRegression_5)
  then show ?thesis
    by (simp add: forward_day_eq js_at_def)
qed

lemma rising_closes_after_runs:
  "closes_after_runs rising_closes = rising_closes @ [Fin 130, Fin 131, NaN, NaN, NaN, NaN, NaN, NaN]"
  by (simp add: closes_after_runs_eq rising_forward_day rising_forward_day_2 eval_nat_numeral)

text \<open>The model of the sort leaves an ordered array as it is.\<close>

lemma sort_insert_last:
  "list_all (\<lambda>y. \<not> js_lt (cmp x y) (Fin 0)) ys \<Longrightarrow> sort_insert cmp x ys = ys @ [x]"
  by (induction ys) simp_all

lemma js_sort_ordered_acc:
  "sorted_wrt (\<lambda>a b. \<not> js_lt (cmp b a) (Fin 0)) (acc @ xs)
   \<Longrightarrow> foldl (\<lambda>sorted x. sort_insert cmp x sorted) acc xs = acc @ xs"
proof (induction xs arbitrary: acc)
  case Nil
  then show ?case by simp
next
  case (Cons x xs)
  from Cons.prems have "list_all (\<lambda>y. \<not> js_lt (cmp x y) (Fin 0)) acc"
    by (auto simp add: sorted_wrt_append list_all_iff)
  then have "sort_insert cmp x acc = acc @ [x]"
    by (rule sort_insert_last)
  moreover from Cons.prems have "sorted_wrt (\<lambda>a b. \<not> js_lt (cmp b a) (Fin 0)) ((acc @ [x]) @ xs)"
    by simp
  ultimately show ?case
    using Cons.IH [of "acc @ [x]"] by simp
qed

lemma js_sort_ordered:
  "sorted_wrt (\<lambda>a b. \<not> js_lt (cmp b a) (Fin 0)) xs \<Longrightarrow> js_sort cmp xs = xs"
  using js_sort_ordered_acc [of cmp "[]" xs] by (simp add: js_sort_def)

lemma rising_sorted:
  "js_sort js_sub (rising_closes @ [Fin 130, Fin 131, NaN, NaN, NaN, NaN, NaN, NaN])
     = rising_closes @ [Fin 130, Fin 131, NaN, NaN, NaN, NaN, NaN, NaN]"
  by (simp add: js_sort_def rising_closes_def js_sub_def)

lemma rising_support_resistance:
  "findSupportResistance (closes_after_runs rising_closes) = (Fin 109, Fin 128)"
  unfolding rising_closes_after_runs findSupportResistance_def rising_sorted
  by (simp add: js_nth_def rising_closes_def Let_def)

lemma rising_sorted_input: "js_sort js_sub rising_closes = rising_closes"
  by (simp add: js_sort_def rising_closes_def js_sub_def)

lemma rising_trend_input: "determineTrend rising_closes = bullish"
  by (simp add: determineTrend_def js_slice_from_def slice_bound_def rising_closes_def
      js_nth_def js_at_def js_sub_def js_gt_def Let_def)

lemma rising_last: "js_at rising_closes (int (length rising_closes) - 1) = Fin 129"
  by (simp add: js_at_def rising_closes_def)

lemma rising_differences:
  "differences rising_closes = replicate 24 (Fin 1) @ [Fin 1, Fin 1, Fin 1, Fin 1, Fin 1]"
  by (simp add: differences_def rising_closes_def js_nth_def js_sub_def upt_conv_Cons
      eval_nat_numeral)

lemma rising_spec_forecast:
  "spec_forecast rising_closes 7 =
     [Fin 130, Fin 131, Fin 132, Fin 133, Fin 134, Fin 135, Fin 136]"
proof -
  have seven: "(7::nat) = Suc (Suc (Suc (Suc (Suc (Suc (Suc 0))))))"
    by simp
  show ?thesis
    unfolding spec_forecast_def seven rising_last rising_differences
    by (simp add: Let_def js_slice_from_def slice_bound_def linearRegression_5)
qed

lemma rising_spec_forecast_day: "spec_forecast rising_closes (Suc 0) = [Fin 130]"
  unfolding spec_forecast_def rising_last rising_differences
  by (simp add: Let_def js_slice_from_def slice_bound_def linearRegression_5)

lemma rising_bars_length: "length rising_bars = 30"
  by (simp add: rising_bars_def)

lemma rising_result:
  "predictStockPrices rising_bars =
     Inr \<lparr>dates = map date rising_bars,
          actual = rising_closes @ [Fin 130, Fin 131, NaN, NaN, NaN, NaN, NaN, NaN],
          predicted = replicate 20 None @ map Some (backfit rising_closes),
          nextDayPrediction = Fin 130,
          nextWeekPrediction = NaN,
          confidence = NaN,
          trend = neutral,
          supportLevel = Fin 109,
          resistanceLevel = Fin 128\<rparr>"
  using predictStockPrices_result [of rising_bars]
  by (simp add: rising_bars_length rising_bars_closes rising_closes_after_runs
      rising_forward_day rising_support_resistance [unfolded rising_closes_after_runs])

text \<open>
  C1. On the 30-bar input the one-day forecast is 130, the value of a one-step run of
  the specification's procedure from the input closes. The array the first run leaves
  behind, the input closes followed by 130, is the array the seven-step run starts
  from; the week forecast is the seventh value of that run and is \<open>NaN\<close>, where the
  seventh value of a seven-step run of the specification's procedure from the input
  closes is 136.
\<close>

theorem predictStockPrices_week_run_starts_from_day_run:
  "\<exists>r. predictStockPrices rising_bars = Inr r
     \<and> nextDayPrediction r = Fin 130
     \<and> spec_forecast (map close rising_bars) 1 = [Fin 130]
     \<and> snd (arimaInspiredPrediction (map close rising_bars) 1)
         = map close rising_bars @ [Fin 130]
     \<and> nextWeekPrediction r
         = js_nth (fst (arimaInspiredPrediction (map close rising_bars @ [Fin 130]) 7)) 6
     \<and> nextWeekPrediction r = NaN
     \<and> js_nth (spec_forecast (map close rising_bars) 7) 6 = Fin 136"
  by (simp add: rising_result rising_bars_closes rising_spec_forecast rising_spec_forecast_day
      arimaInspiredPrediction_1 arimaInspiredPrediction_7 rising_forward_day js_nth_def)

text \<open>
  C2. On the 30-bar input the field \<open>actual\<close> has 38 entries: the 30 input closes
  followed by the eight values the two forward runs pushed.
\<close>

theorem predictStockPrices_actual_carries_forecasts:
  "\<exists>r. predictStockPrices rising_bars = Inr r
     \<and> length rising_bars = 30
     \<and> length (actual r) = 38
     \<and> actual r = map close rising_bars @ [Fin 130, Fin 131, NaN, NaN, NaN, NaN, NaN, NaN]"
  by (simp add: rising_result rising_bars_closes rising_bars_length)
     (simp add: rising_closes_def)

text \<open>
  C5. On the 30-bar input the closes rise from 119 (ten bars before the latest) and 120
  (nine bars before) to 129, a change of more than 3 percent, and \<open>determineTrend\<close> of
  the input closes is bullish; the trend returned is neutral.
\<close>

theorem predictStockPrices_trend_reads_forecasts:
  "\<exists>r. predictStockPrices rising_bars = Inr r
     \<and> js_nth (map close rising_bars) 19 = Fin 119
     \<and> js_nth (map close rising_bars) 20 = Fin 120
     \<and> js_nth (map close rising_bars) 29 = Fin 129
     \<and> determineTrend (map close rising_bars) = bullish
     \<and> trend r = neutral"
  by (simp add: rising_result rising_bars_closes rising_trend_input)
     (simp add: rising_closes_def js_nth_def)

lemma predictStockPrices_throws_iff:
  "(predictStockPrices stockData = Inl insufficient_data \<longleftrightarrow> length stockData < 30)
   \<and> ((\<exists>r. predictStockPrices stockData = Inr r) \<longleftrightarrow> 30 \<le> length stockData)"
proof (cases "length stockData < 30")
  case True
  then show ?thesis by (simp add: predictStockPrices_def)
next
  case False
  then show ?thesis by (simp add: predictStockPrices_result)
qed

lemma predictStockPrices_never_well_formed:
  assumes "30 \<le> length stockData"
  shows "\<exists>r. predictStockPrices stockData = Inr r \<and> \<not> spec_well_formed stockData r
           \<and> length (actual r) = length stockData + 8
           \<and> nextWeekPrediction r = NaN \<and> confidence r = NaN"
  using assms
  by (simp add: predictStockPrices_result spec_well_formed_def closes_after_runs_length)

text \<open>
  C6. \<open>predictStockPrices\<close> throws exactly when fewer than 30 bars are supplied, as on
  the first 29 bars of the 30-bar input. On the 30 bars it returns a result, and the
  result is not well-formed: \<open>actual\<close> has 38 entries for 30 dates, the week forecast is
  \<open>NaN\<close>, and the confidence is \<open>NaN\<close>, not a number in \<open>[0, 1]\<close>.
\<close>

theorem predictStockPrices_thirty_bars_not_well_formed:
  "length rising_bars = 30
   \<and> predictStockPrices (take 29 rising_bars) = Inl insufficient_data
   \<and> (\<exists>r. predictStockPrices rising_bars = Inr r
         \<and> length (actual r) = 38
         \<and> length (dates r) = 30
         \<and> nextWeekPrediction r = NaN
         \<and> confidence r = NaN
         \<and> \<not> in_unit_interval (confidence r)
         \<and> \<not> spec_well_formed rising_bars r)"
proof -
  have "predictStockPrices (take 29 rising_bars) = Inl insufficient_data"
    using predictStockPrices_throws_iff [of "take 29 rising_bars"]
    by (simp add: rising_bars_length)
  moreover have "length (rising_closes @ [Fin 130, Fin 131, NaN, NaN, NaN, NaN, NaN, NaN]) = 38"
    by (simp add: rising_closes_def)
  ultimately show ?thesis
    by (simp add: rising_result rising_bars_length spec_well_formed_def in_unit_interval_def)
qed

text \<open>
  C7. On the 30-bar input the sorted input closes hold 107 at index \<open>floor (30 * 0.25)\<close>
  and 122 at index \<open>floor (30 * 0.75)\<close>; the levels returned are 109 and 128, read at
  the indices 9 and 28 of the sorted 38-element array.
\<close>

theorem predictStockPrices_levels_read_forecasts:
  "\<exists>r. predictStockPrices rising_bars = Inr r
     \<and> js_nth (js_sort js_sub (map close rising_bars)) (nat \<lfloor>real 30 * (25 / 100)\<rfloor>) = Fin 107
     \<and> js_nth (js_sort js_sub (map close rising_bars)) (nat \<lfloor>real 30 * (75 / 100)\<rfloor>) = Fin 122
     \<and> supportLevel r = Fin 109
     \<and> resistanceLevel r = Fin 128"
  by (simp add: rising_result rising_bars_closes rising_sorted_input)
     (simp add: rising_closes_def js_nth_def)

lemma calculateConfidence_default:
  "length act < 10 \<Longrightarrow> calculateConfidence act pred = Fin (5 / 10)"
  by (simp add: calculateConfidence_def)

lemma calculateConfidence_range:
  "calculateConfidence act pred = NaN
   \<or> (\<exists>x. calculateConfidence act pred = Fin x \<and> 0 \<le> x \<and> x \<le> 1)"
proof (cases "length pred = 0 \<or> length act < 10")
  case True
  then have "calculateConfidence act pred = Fin (1 / 2)"
    by (simp add: calculateConfidence_def)
  then show ?thesis
    by (intro disjI2 exI [of _ "1 / 2"]) simp
next
  case False
  have "js_max (Fin 0) (js_min (Fin 1) v) = NaN
        \<or> (\<exists>x. js_max (Fin 0) (js_min (Fin 1) v) = Fin x \<and> 0 \<le> x \<and> x \<le> 1)" for v
    by (cases v) (simp_all add: js_max_def js_min_def)
  with False show ?thesis
    by (simp add: calculateConfidence_def Let_def)
qed

text \<open>
  C8. \<open>calculateConfidence\<close> returns 0.5 when it is given fewer than 10 actual values,
  and otherwise a number between 0 and 1 or \<open>NaN\<close>. On the 30-bar input, whose last
  close is 129, the confidence returned by \<open>predictStockPrices\<close> is \<open>NaN\<close>.
\<close>

theorem predictStockPrices_confidence_nan:
  "\<exists>r. predictStockPrices rising_bars = Inr r
     \<and> js_nth (map close rising_bars) 29 = Fin 129
     \<and> confidence r = NaN
     \<and> \<not> (\<exists>x. confidence r = Fin x \<and> 0 \<le> x \<and> x \<le> 1)"
  by (simp add: rising_result rising_bars_closes)
     (simp add: rising_closes_def js_nth_def)

subsection \<open>RSI and ADX on a flat series\<close>

lemma map_const_on: "(\<And>x. x \<in> set xs \<Longrightarrow> f x = c) \<Longrightarrow> map f xs = replicate (length xs) c"
  by (induction xs) auto

lemma flat_nth: "js_nth flat_series i = (if i < 30 then Fin 100 else NaN)"
  by (simp add: js_nth_def flat_series_def)

lemma flat_length: "length flat_series = 30"
  by (simp add: flat_series_def)

lemma flat_tr: "adx_tr flat_series flat_series flat_series = replicate 29 (Fin 0)"
  unfolding adx_tr_def flat_length
  by (rule trans [OF map_const_on [where c = "Fin 0"]])
     (auto simp add: flat_nth js_sub_def js_max_def Let_def)

lemma flat_plusDM: "adx_plusDM flat_series flat_series flat_series = replicate 29 (Fin 0)"
  unfolding adx_plusDM_def flat_length
  by (rule trans [OF map_const_on [where c = "Fin 0"]])
     (auto simp add: flat_nth js_sub_def js_gt_def Let_def)

lemma flat_minusDM: "adx_minusDM flat_series flat_series flat_series = replicate 29 (Fin 0)"
  unfolding adx_minusDM_def flat_length
  by (rule trans [OF map_const_on [where c = "Fin 0"]])
     (auto simp add: flat_nth js_sub_def js_gt_def Let_def)

lemma flat_smoothed: "calculateSmoothedAverage (replicate 29 (Fin 0)) 14 = replicate 16 (Fin 0)"
  by code_simp


lemma flat_di: "adx_di (replicate 16 (Fin 0)) (replicate 16 (Fin 0)) = replicate 16 NaN"
  unfolding adx_di_def
  by (rule trans [OF map_const_on [where c = NaN]]) (auto simp add: js_nth_def)

lemma flat_dx: "adx_dx (replicate 16 NaN) (replicate 16 NaN) = replicate 16 NaN"
  unfolding adx_dx_def
  by (rule trans [OF map_const_on [where c = NaN]]) (auto simp add: js_nth_def)

lemma flat_adx: "calculateADX flat_series flat_series flat_series 14 = replicate 30 NaN"
  unfolding calculateADX_def flat_tr flat_plusDM flat_minusDM flat_smoothed Let_def flat_di flat_dx
  by (simp add: adx_smooth_def js_nth_def upt_conv_Cons eval_nat_numeral js_sum_def)

lemma flat_gains: "rsi_gains flat_series = replicate 29 (Fin 0)"
  unfolding rsi_gains_def flat_length
  by (rule trans [OF map_const_on [where c = "Fin 0"]])
     (auto simp add: flat_nth js_sub_def js_gt_def Let_def)

lemma flat_losses: "rsi_losses flat_series = replicate 29 (Fin 0)"
  unfolding rsi_losses_def flat_length
  by (rule trans [OF map_const_on [where c = "Fin 0"]])
     (auto simp add: flat_nth js_sub_def js_gt_def Let_def)

lemma flat_rsi: "calculateRSI flat_series 14 = replicate 14 NaN @ replicate 16 (Fin 0)"
  unfolding calculateRSI_def flat_gains flat_losses Let_def flat_length
  by code_simp

lemma rsi_guarded_denominator:
  "js_or avgLoss (Fin (1 / 1000)) \<noteq> Fin 0 \<and> js_or avgLoss (Fin (1 / 1000)) \<noteq> NaN"
  by (simp add: js_or_def)

text \<open>
  C3. On the flat series (every high, low and close 100, period 14) the smoothed true
  range, the denominator of both directional indicators, is 0 at every index; both
  indicators are \<open>0 / 0\<close>, and every entry of the ADX is \<open>NaN\<close>. The RSI of the same
  series is 0 from index 14 on.
\<close>

theorem calculateADX_flat_zero_denominator:
  "calculateSmoothedAverage (adx_tr flat_series flat_series flat_series) 14
     = replicate 16 (Fin 0)
   \<and> calculateSmoothedAverage (adx_plusDM flat_series flat_series flat_series) 14
     = replicate 16 (Fin 0)
   \<and> js_div (Fin 0) (Fin 0) = NaN
   \<and> calculateADX flat_series flat_series flat_series 14 = replicate 30 NaN
   \<and> calculateRSI flat_series 14 = replicate 14 NaN @ replicate 16 (Fin 0)"
  by (simp add: flat_tr flat_plusDM flat_smoothed flat_adx flat_rsi)

end
